theory Spec2Isabelle
  imports Main
begin

section \<open>JavaScript values\<close>

text \<open>
  The control channel carries JSON text.  What \<^verbatim>\<open>JSON.parse\<close> returns, and what the
  handlers build and pass to \<^verbatim>\<open>JSON.stringify\<close>, are JavaScript values.  \<open>JUndefined\<close> is
  the value of a missing property; \<^verbatim>\<open>JSON.parse\<close> never returns it.  An object is the
  association list of its own properties (the first binding of a key counts).
  A number is carried as the text ECMAScript prints for it (\<^verbatim>\<open>Number::toString\<close>, for
  example \<^verbatim>\<open>15\<close>, \<^verbatim>\<open>0.5\<close>, \<^verbatim>\<open>1e+21\<close>): the program never computes on a number it
  received, and that text tells two numbers apart exactly as \<^verbatim>\<open>===\<close> and the keys of a
  \<^verbatim>\<open>Map\<close> do.  Strings are byte strings (UTF-8), so the Japanese literals of the source
  are written byte by byte.
\<close>

datatype jsval =
    JUndefined
  | JNull
  | JBool bool
  | JNum string
  | JStr string
  | JArr "jsval list"
  | JObj "(string \<times> jsval) list"

text \<open>What the program can catch: the platform's own exceptions.\<close>

datatype js_exception = TypeError | SyntaxError

text \<open>
  A value received by a \<^verbatim>\<open>catch\<close> that inspects it with
  \<^verbatim>\<open>error instanceof Error ? error.message : ...\<close>: an \<^verbatim>\<open>Error\<close> instance with its message,
  or any other value.
\<close>

datatype rejection = ErrorObject string | NonError jsval

function show_nat :: "nat \<Rightarrow> string" where
  "show_nat n =
     (if n < 10 then [''0123456789'' ! n]
      else show_nat (n div 10) @ [''0123456789'' ! (n mod 10)])"
  by pat_completeness auto
termination
  by (relation "measure id") auto

declare show_nat.simps [simp del]

fun join_comma :: "string list \<Rightarrow> string" where
  "join_comma [] = []"
| "join_comma [s] = s"
| "join_comma (s # t # ss) = s @ '','' @ join_comma (t # ss)"

text \<open>
  \<^verbatim>\<open>String(v)\<close> and \<^verbatim>\<open>`${v}`\<close>: the conversion of ECMAScript to a string.  It throws a
  TypeError on an object that has a property \<^verbatim>\<open>toString\<close> of its own: a value that came
  out of \<^verbatim>\<open>JSON.parse\<close> is never a function, so that \<^verbatim>\<open>toString\<close> cannot be called, and
  \<^verbatim>\<open>valueOf\<close> (its own, or the one every object inherits) yields no primitive value.
  Any other object prints as \<^verbatim>\<open>[object Object]\<close>.  An array joins the conversions of its
  elements with commas, \<^verbatim>\<open>null\<close> and \<^verbatim>\<open>undefined\<close> counting as the empty string; the
  first element whose conversion throws makes the whole conversion throw.
\<close>

fun to_string :: "jsval \<Rightarrow> js_exception + string"
  and to_strings :: "jsval list \<Rightarrow> js_exception + string list" where
  "to_string JUndefined = Inr ''undefined''"
| "to_string JNull = Inr ''null''"
| "to_string (JBool b) = Inr (if b then ''true'' else ''false'')"
| "to_string (JNum n) = Inr n"
| "to_string (JStr s) = Inr s"
| "to_string (JArr xs) =
     (case to_strings xs of Inl e \<Rightarrow> Inl e | Inr ss \<Rightarrow> Inr (join_comma ss))"
| "to_string (JObj kvs) =
     (if map_of kvs ''toString'' \<noteq> None then Inl TypeError else Inr ''[object Object]'')"
| "to_strings [] = Inr []"
| "to_strings (x # xs) =
     (case (if x = JUndefined \<or> x = JNull then Inr [] else to_string x) of
        Inl e \<Rightarrow> Inl e
      | Inr s \<Rightarrow> (case to_strings xs of Inl e \<Rightarrow> Inl e | Inr ss \<Rightarrow> Inr (s # ss)))"

text \<open>
  Reading a property \<^verbatim>\<open>v.k\<close>, for the property names this program reads
  (\<^verbatim>\<open>type\<close>, \<^verbatim>\<open>id\<close>, \<^verbatim>\<open>function\<close>, \<^verbatim>\<open>name\<close>, \<^verbatim>\<open>arguments\<close>, \<^verbatim>\<open>delta\<close>, \<^verbatim>\<open>transcript\<close>,
  \<^verbatim>\<open>location\<close>, \<^verbatim>\<open>units\<close>).  On \<^verbatim>\<open>null\<close> and \<^verbatim>\<open>undefined\<close> the read throws a TypeError;
  on an object it finds the property or yields \<^verbatim>\<open>undefined\<close>; on every other value it
  yields \<^verbatim>\<open>undefined\<close>.  \<open>read_prop\<close> is the value read where the read does not throw.
\<close>

definition nullish :: "jsval \<Rightarrow> bool" where
  "nullish v = (v = JUndefined \<or> v = JNull)"

fun read_prop :: "jsval \<Rightarrow> string \<Rightarrow> jsval" where
  "read_prop (JObj kvs) k = (case map_of kvs k of None \<Rightarrow> JUndefined | Some v \<Rightarrow> v)"
| "read_prop v k = JUndefined"

definition get_prop :: "jsval \<Rightarrow> string \<Rightarrow> js_exception + jsval" where
  "get_prop v k = (if nullish v then Inl TypeError else Inr (read_prop v k))"

text \<open>Sequencing of steps that may throw: the first exception ends the block.\<close>

definition and_then :: "'e + 'a \<Rightarrow> ('a \<Rightarrow> 'e + 'b) \<Rightarrow> 'e + 'b" where
  "and_then m f = (case m of Inl e \<Rightarrow> Inl e | Inr x \<Rightarrow> f x)"

text \<open>
  \<^verbatim>\<open>JSON.parse\<close> belongs to the platform.  The model takes it as a parameter
  \<open>P :: string \<Rightarrow> jsval option\<close>, with \<open>None\<close> where it throws a SyntaxError.  Applied to
  a value that is not a string it first converts the value to a string, which may throw.
\<close>

definition JSON_parse_value :: "(string \<Rightarrow> jsval option) \<Rightarrow> jsval \<Rightarrow> js_exception + jsval" where
  "JSON_parse_value P v =
     and_then (to_string v) (\<lambda>text. case P text of None \<Rightarrow> Inl SyntaxError | Some x \<Rightarrow> Inr x)"

section \<open>The page: state of \<^verbatim>\<open>WebRTCClient\<close> (src/app/page.tsx)\<close>

datatype role = assistant | user

text \<open>A \<^verbatim>\<open>Date\<close> is the number of milliseconds it holds.\<close>

record message =
  role :: role
  content :: string
  timestamp :: nat

record function_call =
  call_id :: jsval
  call_name :: jsval
  call_arguments :: jsval

record function_result =
  result_id :: jsval
  result_name :: jsval
  result :: jsval
  result_error :: "string option"

text \<open>
  The lines of the debug log.  Each constructor is one template string of the source.
  A value the source prints with \<^verbatim>\<open>JSON.stringify\<close> (which does not throw on these
  values), and a caught exception, is kept as it is instead of rendered; the name in
  \<open>ExecutingFunction\<close> is the string the template converted it to.  \<open>WorkerLog\<close> is a
  line forwarded from the worker, \<open>LogText\<close> a fixed text.
\<close>

datatype log_message =
    ReceivedEvent jsval
  | FunctionCallReceived jsval
  | ErrorProcessingFunctionCall js_exception
  | ExecutingFunction string
  | SendingFunctionResponse jsval
  | ErrorExecutingFunction js_exception
  | ErrorParsingEvent js_exception
  | WorkerLog nat string
  | LogText string
  | LogError string

datatype ready_state = connecting | open_state | closing | closed

text \<open>
  The data channel: its \<^verbatim>\<open>readyState\<close> and the frames handed to \<^verbatim>\<open>send\<close>, each as the value
  given to \<^verbatim>\<open>JSON.stringify\<close>.
\<close>

record data_channel =
  readyState :: ready_state
  sent :: "jsval list"

text \<open>
  A key of the \<^verbatim>\<open>Map\<close> \<open>activeFunctions\<close>.  The \<^verbatim>\<open>Map\<close> compares primitive keys by value
  and arrays and objects by reference.  Every \<^verbatim>\<open>JSON.parse\<close> creates its arrays and
  objects anew, so an id that is an array or an object is the same key only within the
  handling of the frame it came with: such a key is the number of that handling.
\<close>

datatype map_key = ValueKey jsval | ObjectKey nat


definition key_of :: "nat \<Rightarrow> jsval \<Rightarrow> map_key" where
  "key_of n v = (case v of JArr xs \<Rightarrow> ObjectKey n | JObj kvs \<Rightarrow> ObjectKey n | _ \<Rightarrow> ValueKey v)"

text \<open>
  The React state variables and refs of the component, under their names in the source.
  \<open>executing\<close> holds the calls of \<^verbatim>\<open>executeFunction\<close> that wait for their timer, each
  with the key its id is in \<open>activeFunctions\<close>: the promises in flight, oldest first.
  \<open>activeFunctions\<close> is the \<^verbatim>\<open>Map\<close> from id to call and start time, in insertion order.
  \<open>allocated\<close> counts the function calls built so far; it numbers the ids that are
  arrays or objects.
\<close>

record client_state =
  messages :: "message list"
  inputMessage :: string
  status :: string
  error :: "string option"
  isDataChannelReady :: bool
  debugLog :: "(nat \<times> log_message) list"
  transcripts :: "string list"
  activeFunctions :: "(map_key \<times> function_call \<times> nat) list"
  completedFunctions :: "function_result list"
  dataChannel :: "data_channel option"
  hasPeerConnection :: bool
  executing :: "(map_key \<times> function_call) list"
  allocated :: nat

definition addDebugLog :: "nat \<Rightarrow> log_message \<Rightarrow> client_state \<Rightarrow> client_state" where
  "addDebugLog now m s = s\<lparr>debugLog := debugLog s @ [(now, m)]\<rparr>"

definition addTranscript :: "string \<Rightarrow> client_state \<Rightarrow> client_state" where
  "addTranscript text s = s\<lparr>transcripts := transcripts s @ [text]\<rparr>"

text \<open>
  \<^verbatim>\<open>Map.prototype.set\<close> and \<^verbatim>\<open>delete\<close> on an insertion-ordered map: \<open>set\<close> replaces the
  value of a key in place, or appends a new entry.
\<close>

fun map_set :: "'k \<Rightarrow> 'v \<Rightarrow> ('k \<times> 'v) list \<Rightarrow> ('k \<times> 'v) list" where
  "map_set k v [] = [(k, v)]"
| "map_set k v ((k', v') # m) = (if k' = k then (k, v) # m else (k', v') # map_set k v m)"

fun map_delete :: "'k \<Rightarrow> ('k \<times> 'v) list \<Rightarrow> ('k \<times> 'v) list" where
  "map_delete k [] = []"
| "map_delete k ((k', v') # m) = (if k' = k then m else (k', v') # map_delete k m)"

text \<open>The updater given to \<^verbatim>\<open>setMessages\<close> for a text delta (page.tsx, lines 340-361).\<close>

definition append_delta :: "nat \<Rightarrow> string \<Rightarrow> message list \<Rightarrow> message list" where
  "append_delta now delta prev =
     (if prev \<noteq> [] \<and> role (last prev) = assistant
      then butlast prev @
           [(last prev)\<lparr>content := content (last prev) @ delta, timestamp := timestamp (last prev)\<rparr>]
      else prev @ [\<lparr>role = assistant, content = delta, timestamp = now\<rparr>])"

text \<open>
  The \<^verbatim>\<open>functionCall\<close> object built inside the inner \<^verbatim>\<open>try\<close> (lines 283-287).  Any of the
  property reads, and the parse of the arguments, may throw.
\<close>

definition build_functionCall ::
    "(string \<Rightarrow> jsval option) \<Rightarrow> jsval \<Rightarrow> js_exception + function_call" where
  "build_functionCall P realtimeEvent =
     and_then (get_prop realtimeEvent ''id'') (\<lambda>i.
     and_then (get_prop realtimeEvent ''function'') (\<lambda>f.
     and_then (get_prop f ''name'') (\<lambda>n.
     and_then (get_prop f ''arguments'') (\<lambda>a.
     and_then (JSON_parse_value P a) (\<lambda>args.
       Inr \<lparr>call_id = i, call_name = n, call_arguments = args\<rparr>)))))"

text \<open>
  The rest of handling a function call (lines 290-300 and 376-380): the call enters
  \<open>activeFunctions\<close> under the key of its id, then \<^verbatim>\<open>executeFunction\<close> is called.  Its
  first statement logs the name through a template string (line 377).  If converting the
  name throws, the promise of \<^verbatim>\<open>executeFunction\<close> is rejected at once: no timer is set,
  \<^verbatim>\<open>.catch\<close> logs the exception (line 326), and the entry stays in \<open>activeFunctions\<close>.
  Otherwise the execution waits for its timer (line 380).
\<close>

definition start_execution :: "nat \<Rightarrow> function_call \<Rightarrow> client_state \<Rightarrow> client_state" where
  "start_execution now functionCall s =
     (let k = key_of (allocated s) (call_id functionCall);
          s1 = s\<lparr>activeFunctions := map_set k (functionCall, now) (activeFunctions s),
                 allocated := Suc (allocated s)\<rparr>
      in case to_string (call_name functionCall) of
           Inl e \<Rightarrow> addDebugLog now (ErrorExecutingFunction e) s1
         | Inr name \<Rightarrow>
             (let s2 = addDebugLog now (ExecutingFunction name) s1
              in s2\<lparr>executing := executing s2 @ [(k, functionCall)]\<rparr>))"

text \<open>
  \<^verbatim>\<open>dc.onmessage\<close> (lines 273-373), for one frame with text \<open>raw\<close> arriving at time \<open>now\<close>.
  The outer \<^verbatim>\<open>catch\<close> receives the SyntaxError of \<^verbatim>\<open>JSON.parse\<close> and the TypeError of
  reading \<^verbatim>\<open>.type\<close> of \<^verbatim>\<open>null\<close>; the inner one what building the call throws.
\<close>

definition onmessage ::
    "(string \<Rightarrow> jsval option) \<Rightarrow> nat \<Rightarrow> string \<Rightarrow> client_state \<Rightarrow> client_state" where
  "onmessage P now raw s =
     (case P raw of
        None \<Rightarrow> addDebugLog now (ErrorParsingEvent SyntaxError) s
      | Some realtimeEvent \<Rightarrow>
          (let s1 = addDebugLog now (ReceivedEvent realtimeEvent) s in
           if nullish realtimeEvent then addDebugLog now (ErrorParsingEvent TypeError) s1
           else if read_prop realtimeEvent ''type'' = JStr ''response.function.call'' then
             (let s2 = addDebugLog now (FunctionCallReceived realtimeEvent) s1 in
              case build_functionCall P realtimeEvent of
                Inl e \<Rightarrow> addDebugLog now (ErrorProcessingFunctionCall e) s2
              | Inr functionCall \<Rightarrow> start_execution now functionCall s2)
           else
             (case (read_prop realtimeEvent ''type'' = JStr ''response.text.delta'',
                    read_prop realtimeEvent ''delta'') of
                (True, JStr delta) \<Rightarrow> s1\<lparr>messages := append_delta now delta (messages s1)\<rparr>
              | _ \<Rightarrow>
                (case (read_prop realtimeEvent ''type'' = JStr ''response.audio_transcript.done'',
                       read_prop realtimeEvent ''transcript'') of
                   (True, JStr transcript) \<Rightarrow> addTranscript transcript s1
                 | _ \<Rightarrow> s1))))"

subsection \<open>Executing a function call\<close>

text \<open>
  What the environment gives one run of \<^verbatim>\<open>executeFunction\<close>: \<open>rnd k\<close> is the random
  number behind the \<open>k\<close>-th call of \<^verbatim>\<open>Math.random\<close>, and \<open>iso_now\<close> is
  \<^verbatim>\<open>new Date().toISOString()\<close>.  \<^verbatim>\<open>Math.floor(Math.random() * n)\<close> is an integer from
  \<open>0\<close> to \<open>n - 1\<close>: at the \<open>k\<close>-th call it is \<open>draw env k n\<close>.
\<close>

record exec_env =
  rnd :: "nat \<Rightarrow> nat"
  iso_now :: string

definition draw :: "exec_env \<Rightarrow> nat \<Rightarrow> nat \<Rightarrow> nat" where
  "draw env k n = rnd env k mod n"

definition conditions :: "string list" where
  "conditions =
     [[CHR 0xE6, CHR 0x99, CHR 0xB4, CHR 0xE3, CHR 0x82, CHR 0x8C],
      [CHR 0xE6, CHR 0x9B, CHR 0x87, CHR 0xE3, CHR 0x82, CHR 0x8A],
      [CHR 0xE9, CHR 0x9B, CHR 0xA8],
      [CHR 0xE9, CHR 0x9B, CHR 0xAA],
      [CHR 0xE9, CHR 0x9C, CHR 0xA7]]"

text \<open>The prefix of the message for a function that is not implemented (line 402).\<close>

definition unimplemented_prefix :: string where
  "unimplemented_prefix =
     [CHR 0xE6, CHR 0x9C, CHR 0xAA, CHR 0xE5, CHR 0xAE, CHR 0x9F, CHR 0xE8, CHR 0xA3, CHR 0x85,
      CHR 0xE3, CHR 0x81, CHR 0xAE, CHR 0xE9, CHR 0x96, CHR 0xA2, CHR 0xE6, CHR 0x95, CHR 0xB0,
      CHR 0x3A, CHR 0x20]"

text \<open>
  \<^verbatim>\<open>executeFunction\<close> (lines 382-404) from the moment its timer has fired: \<open>Inr\<close> is the
  result its promise resolves to, \<open>Inl\<close> the exception it rejects with (destructuring
  \<^verbatim>\<open>null\<close> arguments throws; so would the template string of line 402 on a name without
  a conversion to a string).  A missing \<^verbatim>\<open>units\<close> defaults to \<^verbatim>\<open>'celsius'\<close>.  The numbers
  of the result are below 110 and print in plain decimal.
\<close>

definition executeFunction :: "exec_env \<Rightarrow> function_call \<Rightarrow> js_exception + function_result" where
  "executeFunction env functionCall =
     (if call_name functionCall = JStr ''get_weather'' then
        and_then (get_prop (call_arguments functionCall) ''location'') (\<lambda>location.
        and_then (get_prop (call_arguments functionCall) ''units'') (\<lambda>u.
          let units = (if u = JUndefined then JStr ''celsius'' else u) in
          Inr \<lparr>result_id = call_id functionCall,
               result_name = call_name functionCall,
               result = JObj
                 [(''location'', location),
                  (''temperature'',
                     JNum (show_nat (if units = JStr ''celsius'' then draw env 0 15 + 15
                                     else draw env 0 30 + 60))),
                  (''condition'', JStr (conditions ! draw env 1 5)),
                  (''humidity'', JNum (show_nat (draw env 2 50 + 30))),
                  (''windSpeed'', JNum (show_nat (draw env 3 20 + 5))),
                  (''units'', units),
                  (''timestamp'', JStr (iso_now env))],
               result_error = None\<rparr>))
      else
        and_then (to_string (call_name functionCall)) (\<lambda>name.
          Inr \<lparr>result_id = call_id functionCall,
               result_name = call_name functionCall,
               result = JNull,
               result_error = Some (unimplemented_prefix @ name)\<rparr>))"

text \<open>
  The event sent back (lines 313-320).  \<^verbatim>\<open>result.error ? ... : ...\<close> tests the error for
  truthiness: a missing or empty error selects the result.
\<close>

definition response_payload :: "function_result \<Rightarrow> jsval" where
  "response_payload r =
     (case result_error r of
        None \<Rightarrow> result r
      | Some e \<Rightarrow> if e \<noteq> [] then JObj [(''error'', JStr e)] else result r)"

definition functionResponseEvent :: "function_result \<Rightarrow> jsval" where
  "functionResponseEvent r =
     JObj [(''type'', JStr ''response.function.response''),
           (''function'', JObj [(''name'', result_name r), (''response'', response_payload r)]),
           (''id'', result_id r)]"

definition channel_open :: "client_state \<Rightarrow> bool" where
  "channel_open s = (case dataChannel s of None \<Rightarrow> False | Some dc \<Rightarrow> readyState dc = open_state)"

text \<open>\<^verbatim>\<open>dataChannel.current.send(JSON.stringify(v))\<close> on an open channel.\<close>

definition send :: "jsval \<Rightarrow> client_state \<Rightarrow> client_state" where
  "send v s = s\<lparr>dataChannel := map_option (\<lambda>dc. dc\<lparr>sent := sent dc @ [v]\<rparr>) (dataChannel s)\<rparr>"

definition sent_frames :: "client_state \<Rightarrow> jsval list" where
  "sent_frames s = (case dataChannel s of None \<Rightarrow> [] | Some dc \<Rightarrow> sent dc)"

text \<open>
  The continuation of \<^verbatim>\<open>executeFunction(functionCall)\<close> (lines 300-327): \<^verbatim>\<open>.then\<close> records
  the result, removes the key of the id from \<open>activeFunctions\<close> and, if the channel is
  open at that moment, sends the response; \<^verbatim>\<open>.catch\<close> logs a rejection.
\<close>

definition execution_settles ::
    "exec_env \<Rightarrow> nat \<Rightarrow> map_key \<Rightarrow> function_call \<Rightarrow> client_state \<Rightarrow> client_state" where
  "execution_settles env now k functionCall s =
     (case executeFunction env functionCall of
        Inl e \<Rightarrow> addDebugLog now (ErrorExecutingFunction e) s
      | Inr r \<Rightarrow>
          (let s1 = s\<lparr>completedFunctions := completedFunctions s @ [r]\<rparr>;
               s2 = s1\<lparr>activeFunctions := map_delete k (activeFunctions s1)\<rparr>
           in if channel_open s2
              then send (functionResponseEvent r)
                     (addDebugLog now (SendingFunctionResponse (functionResponseEvent r)) s2)
              else s2))"

text \<open>
  The timer of the \<open>i\<close>-th execution in flight fires; executions may settle in any
  order.  Without such an execution nothing happens.
\<close>

definition timer_fires :: "exec_env \<Rightarrow> nat \<Rightarrow> nat \<Rightarrow> client_state \<Rightarrow> client_state" where
  "timer_fires env now i s =
     (if i < length (executing s)
      then execution_settles env now (fst (executing s ! i)) (snd (executing s ! i))
             (s\<lparr>executing := take i (executing s) @ drop (Suc i) (executing s)\<rparr>)
      else s)"

text \<open>
  The channel closes: the platform sets \<^verbatim>\<open>readyState\<close> and calls \<^verbatim>\<open>dc.onclose\<close>
  (lines 262-265).
\<close>

definition channel_closes :: "nat \<Rightarrow> client_state \<Rightarrow> client_state" where
  "channel_closes now s =
     (let s1 = s\<lparr>dataChannel := map_option (\<lambda>dc. dc\<lparr>readyState := closed\<rparr>) (dataChannel s)\<rparr>
      in (addDebugLog now (LogText ''Data channel closed'') s1)\<lparr>isDataChannelReady := False\<rparr>)"

text \<open>A run of the page: the events it reacts to, in the order they happen.\<close>

datatype event =
    Frame nat string
  | TimerFires exec_env nat nat
  | ChannelCloses nat

fun step :: "(string \<Rightarrow> jsval option) \<Rightarrow> client_state \<Rightarrow> event \<Rightarrow> client_state" where
  "step P s (Frame now raw) = onmessage P now raw s"
| "step P s (TimerFires env now i) = timer_fires env now i s"
| "step P s (ChannelCloses now) = channel_closes now s"

definition run :: "(string \<Rightarrow> jsval option) \<Rightarrow> event list \<Rightarrow> client_state \<Rightarrow> client_state" where
  "run P evs s = foldl (step P) s evs"

subsection \<open>Messages from the worker\<close>

text \<open>
  What the worker posts to the page on the signaling path (src/workers/webrtc.worker.ts):
  a log line (the time stands for its ISO prefix), an error with its text, or the remote
  description.
\<close>

datatype worker_to_main =
    DEBUG_LOG nat string
  | ERROR "string option"
  | REMOTE_DESCRIPTION_RECEIVED string

text \<open>
  \<^verbatim>\<open>workerRef.current.onmessage\<close> (lines 439-537) on these messages.
  \<open>setRemoteDescription\<close> is the platform's: \<open>None\<close> where it succeeds.  In the
  \<^verbatim>\<open>ERROR\<close> case \<^verbatim>\<open>workerError || "Unknown error occurred"\<close> replaces a missing or empty text.
\<close>

fun workerRef_onmessage ::
    "(string \<Rightarrow> rejection option) \<Rightarrow> nat \<Rightarrow> worker_to_main \<Rightarrow> client_state \<Rightarrow> client_state" where
  "workerRef_onmessage setRemoteDescription now (REMOTE_DESCRIPTION_RECEIVED sdp) s =
     (if sdp \<noteq> [] \<and> hasPeerConnection s then
        (case setRemoteDescription sdp of
           None \<Rightarrow> (addDebugLog now (LogText ''Remote description set'') s)\<lparr>status := ''Connecting...''\<rparr>
         | Some e \<Rightarrow>
             (let errorMsg = (case e of ErrorObject m \<Rightarrow> m
                                      | NonError v \<Rightarrow> ''Failed to set remote description'')
              in (addDebugLog now (LogError errorMsg) s)\<lparr>error := Some errorMsg\<rparr>))
      else s)"
| "workerRef_onmessage setRemoteDescription now (ERROR workerError) s =
     s\<lparr>error := Some (case workerError of
                        None \<Rightarrow> ''Unknown error occurred''
                      | Some e \<Rightarrow> if e \<noteq> [] then e else ''Unknown error occurred''),
       status := ''Error''\<rparr>"
| "workerRef_onmessage setRemoteDescription now (DEBUG_LOG t m) s = addDebugLog now (WorkerLog t m) s"

section \<open>The signaling worker (src/workers/webrtc.worker.ts)\<close>

record http_request =
  url :: string
  http_method :: string
  body :: string
  headers :: "(string \<times> string) list"

record http_response =
  response_status :: nat
  response_text :: string

text \<open>\<^verbatim>\<open>Response.ok\<close>: the status is in the range 200-299.\<close>

definition ok :: "http_response \<Rightarrow> bool" where
  "ok r = (200 \<le> response_status r \<and> response_status r \<le> 299)"

text \<open>What the worker does to the world: the messages posted, the requests made.\<close>

record worker_world =
  posted :: "worker_to_main list"
  requests :: "http_request list"

definition post :: "worker_to_main \<Rightarrow> worker_world \<Rightarrow> worker_world" where
  "post m w = w\<lparr>posted := posted w @ [m]\<rparr>"

definition worker_log :: "nat \<Rightarrow> string \<Rightarrow> worker_world \<Rightarrow> worker_world" where
  "worker_log now message w = post (DEBUG_LOG now message) w"

definition baseUrl :: string where
  "baseUrl = ''https://api.openai.com/v1/realtime''"

definition model :: string where
  "model = ''gpt-4o-mini-realtime-preview-2024-12-17''"

definition signaling_request :: "string \<Rightarrow> string \<Rightarrow> http_request" where
  "signaling_request offer token =
     \<lparr>url = baseUrl @ ''?model='' @ model, http_method = ''POST'', body = offer,
      headers = [(''Authorization'', ''Bearer '' @ token), (''Content-Type'', ''application/sdp'')]\<rparr>"

text \<open>
  \<^verbatim>\<open>getRemoteDescription\<close> (lines 36-69).  \<open>fetch\<close> is the platform's: \<open>Inl\<close> where the
  request itself fails.  \<open>t0\<close> is the time of the call, \<open>t1\<close> the time the response
  arrives.  The result is \<open>Inl\<close> for what the function throws, \<open>Inr\<close> for the answer.
\<close>

definition getRemoteDescription ::
    "(http_request \<Rightarrow> rejection + http_response) \<Rightarrow> nat \<Rightarrow> nat \<Rightarrow> string \<Rightarrow> string \<Rightarrow>
     worker_world \<Rightarrow> (rejection + string) \<times> worker_world" where
  "getRemoteDescription fetch t0 t1 offer token w =
     (let w1 = worker_log t0 ''Getting remote description...'' w;
          w2 = worker_log t0 (''Making request to: '' @ baseUrl @ ''?model='' @ model) w1;
          w3 = worker_log t0 (''Using offer SDP: '' @ take 100 offer @ ''...'') w2;
          w4 = w3\<lparr>requests := requests w3 @ [signaling_request offer token]\<rparr>
      in case fetch (signaling_request offer token) of
           Inl e \<Rightarrow> (Inl e, w4)
         | Inr sdpResponse \<Rightarrow>
             if \<not> ok sdpResponse then
               (Inl (ErrorObject (''Failed to get remote description: ''
                       @ show_nat (response_status sdpResponse) @ '' - ''
                       @ response_text sdpResponse)),
                worker_log t1 (''Response error ('' @ show_nat (response_status sdpResponse)
                                 @ ''): '' @ response_text sdpResponse) w4)
             else
               (Inr (response_text sdpResponse),
                worker_log t1 ''Received answer from OpenAI''
                  (worker_log t1 ''Response is OK, getting SDP answer...'' w4)))"

text \<open>
  The \<^verbatim>\<open>GET_REMOTE_DESCRIPTION\<close> case of the worker's \<^verbatim>\<open>self.onmessage\<close> (lines 148-159)
  with the \<^verbatim>\<open>catch\<close> around the switch (lines 203-208).  \<open>data_content\<close> is \<open>None\<close> when
  \<^verbatim>\<open>data.content\<close> is not a string.
\<close>

definition worker_GET_REMOTE_DESCRIPTION ::
    "(http_request \<Rightarrow> rejection + http_response) \<Rightarrow> nat \<Rightarrow> nat \<Rightarrow> string option \<Rightarrow> string \<Rightarrow>
     worker_world \<Rightarrow> worker_world" where
  "worker_GET_REMOTE_DESCRIPTION fetch t0 t1 data_content token w =
     (case data_content of
        None \<Rightarrow> w
      | Some offer \<Rightarrow>
          (case getRemoteDescription fetch t0 t1 offer token w of
             (Inr answer, w') \<Rightarrow> post (REMOTE_DESCRIPTION_RECEIVED answer) w'
           | (Inl e, w') \<Rightarrow>
               post (ERROR (Some (case e of ErrorObject m \<Rightarrow> m
                                          | NonError v \<Rightarrow> ''Unknown error occurred''))) w'))"

text \<open>The page handles what the worker posted, in order.\<close>

definition deliver ::
    "(string \<Rightarrow> rejection option) \<Rightarrow> nat \<Rightarrow> worker_to_main list \<Rightarrow> client_state \<Rightarrow> client_state" where
  "deliver setRemoteDescription now ms s =
     foldl (\<lambda>s m. workerRef_onmessage setRemoteDescription now m s) s ms"

section \<open>The function registry (src/functions/index.ts)\<close>

record function_definition =
  def_name :: string
  description :: string
  parameters :: jsval

text \<open>
  A handler returns a promise: it resolves with a value, rejects (or the handler throws)
  with some value, or never settles.  The values thrown are \<^verbatim>\<open>Error\<close> instances with a
  string message, and the values of \<open>jsval\<close>.
\<close>

datatype handler_outcome = Resolves jsval | Rejects rejection | NeverSettles

type_synonym function_handler = "jsval \<Rightarrow> handler_outcome"

text \<open>The private \<^verbatim>\<open>Map\<close> of the registry, keyed by name, in insertion order.\<close>

type_synonym function_registry = "(string \<times> function_definition \<times> function_handler) list"

definition register ::
    "function_definition \<Rightarrow> function_handler \<Rightarrow> function_registry \<Rightarrow> function_registry" where
  "register d handler functions = map_set (def_name d) (d, handler) functions"

definition getAllDefinitions :: "function_registry \<Rightarrow> function_definition list" where
  "getAllDefinitions functions = map (\<lambda>f. fst (snd f)) functions"

text \<open>\<^verbatim>\<open>this.functions.get(name)\<close>: the keys are strings, so only a string finds an entry.\<close>

definition registry_get ::
    "function_registry \<Rightarrow> jsval \<Rightarrow> (function_definition \<times> function_handler) option" where
  "registry_get functions n = (case n of JStr k \<Rightarrow> map_of functions k | _ \<Rightarrow> None)"

text \<open>
  How the promise of an \<^verbatim>\<open>async\<close> function ends: it is fulfilled with a value, it is
  rejected with an exception, or it stays pending.
\<close>

datatype 'a settled = Fulfilled 'a | Rejected js_exception | Pending

text \<open>
  \<^verbatim>\<open>execute\<close> (lines 51-78).  The template string of the \<^verbatim>\<open>not found\<close> message (line 59)
  stands outside the \<^verbatim>\<open>try\<close>, and \<^verbatim>\<open>String(error)\<close> (line 75) stands inside the \<^verbatim>\<open>catch\<close>:
  where one of these conversions throws, the promise of \<^verbatim>\<open>execute\<close> is rejected.  It
  stays pending when the handler's promise never settles.
\<close>

definition execute :: "function_registry \<Rightarrow> function_call \<Rightarrow> function_result settled" where
  "execute functions functionCall =
     (case registry_get functions (call_name functionCall) of
        None \<Rightarrow>
          (case to_string (call_name functionCall) of
             Inl e \<Rightarrow> Rejected e
           | Inr name \<Rightarrow>
               Fulfilled \<lparr>result_id = call_id functionCall,
                          result_name = call_name functionCall,
                          result = JNull,
                          result_error =
                            Some (''Function '' @ [CHR 0x27] @ name @ [CHR 0x27] @ '' not found'')\<rparr>)
      | Some func \<Rightarrow>
          (case snd func (call_arguments functionCall) of
             Resolves v \<Rightarrow>
               Fulfilled \<lparr>result_id = call_id functionCall,
                          result_name = call_name functionCall,
                          result = v,
                          result_error = None\<rparr>
           | Rejects (ErrorObject m) \<Rightarrow>
               Fulfilled \<lparr>result_id = call_id functionCall,
                          result_name = call_name functionCall,
                          result = JNull,
                          result_error = Some m\<rparr>
           | Rejects (NonError v) \<Rightarrow>
               (case to_string v of
                  Inl e \<Rightarrow> Rejected e
                | Inr text \<Rightarrow>
                    Fulfilled \<lparr>result_id = call_id functionCall,
                               result_name = call_name functionCall,
                               result = JNull,
                               result_error = Some text\<rparr>)
           | NeverSettles \<Rightarrow> Pending))"

text \<open>The registry after a sequence of registrations, starting from the empty one.\<close>

definition registry_of :: "(function_definition \<times> function_handler) list \<Rightarrow> function_registry" where
  "registry_of rs = foldl (\<lambda>functions r. register (fst r) (snd r) functions) [] rs"

text \<open>
  A registry as registrations leave it: the keys are distinct, and each entry stands
  under the name of its definition.
\<close>

definition keyed_by_name :: "function_registry \<Rightarrow> bool" where
  "keyed_by_name functions =
     (distinct (map fst functions) \<and> list_all (\<lambda>f. def_name (fst (snd f)) = fst f) functions)"

section \<open>Kinds of frames\<close>

text \<open>
  The text delta a frame carries, as \<open>onmessage\<close> tests it: the frame parses, its
  \<^verbatim>\<open>type\<close> is \<^verbatim>\<open>response.text.delta\<close> and its \<^verbatim>\<open>delta\<close> is a string.
\<close>

definition text_delta_of :: "(string \<Rightarrow> jsval option) \<Rightarrow> string \<Rightarrow> string option" where
  "text_delta_of P raw =
     (case P raw of
        None \<Rightarrow> None
      | Some ev \<Rightarrow>
          (case (read_prop ev ''type'' = JStr ''response.text.delta'', read_prop ev ''delta'') of
             (True, JStr delta) \<Rightarrow> Some delta
           | _ \<Rightarrow> None))"

text \<open>
  The transcript a frame carries, as \<open>onmessage\<close> tests it: the frame parses, its
  \<^verbatim>\<open>type\<close> is \<^verbatim>\<open>response.audio_transcript.done\<close> and its \<^verbatim>\<open>transcript\<close> is a string.
\<close>

definition transcript_of :: "(string \<Rightarrow> jsval option) \<Rightarrow> string \<Rightarrow> string option" where
  "transcript_of P raw =
     (case P raw of
        None \<Rightarrow> None
      | Some ev \<Rightarrow>
          (case (read_prop ev ''type'' = JStr ''response.audio_transcript.done'',
                 read_prop ev ''transcript'') of
             (True, JStr transcript) \<Rightarrow> Some transcript
           | _ \<Rightarrow> None))"

text \<open>
  The function call a frame carries, as \<open>onmessage\<close> builds it: the frame parses, its
  \<^verbatim>\<open>type\<close> is \<^verbatim>\<open>response.function.call\<close> and building the call does not throw.
\<close>

definition function_call_of :: "(string \<Rightarrow> jsval option) \<Rightarrow> string \<Rightarrow> function_call option" where
  "function_call_of P raw =
     (case P raw of
        None \<Rightarrow> None
      | Some ev \<Rightarrow>
          if read_prop ev ''type'' = JStr ''response.function.call''
          then (case build_functionCall P ev of Inl e \<Rightarrow> None | Inr functionCall \<Rightarrow> Some functionCall)
          else None)"

text \<open>Frames given as pairs of arrival time and text.\<close>

definition frames_of :: "(nat \<times> string) list \<Rightarrow> event list" where
  "frames_of fs = map (\<lambda>f. Frame (fst f) (snd f)) fs"

section \<open>Sample inputs\<close>

text \<open>The state of the component when it mounts (the arguments of \<^verbatim>\<open>useState\<close>).\<close>

definition initial_state :: client_state where
  "initial_state =
     \<lparr>messages = [], inputMessage = [], status = ''Initializing...'', error = None,
      isDataChannelReady = False, debugLog = [], transcripts = [], activeFunctions = [],
      completedFunctions = [], dataChannel = None, hasPeerConnection = False, executing = [],
      allocated = 0\<rparr>"

text \<open>
  A page whose data channel is open, with the status and flags \<^verbatim>\<open>dc.onopen\<close> sets and an
  empty record of frames sent.
\<close>

definition ready_page :: client_state where
  "ready_page =
     initial_state\<lparr>status := ''Ready'', isDataChannelReady := True, hasPeerConnection := True,
       dataChannel := Some \<lparr>readyState = open_state, sent = []\<rparr>\<rparr>"

text \<open>
  Sample frames, and \<^verbatim>\<open>JSON.parse\<close> on them: \<open>sample_parse\<close> gives the value that
  \<^verbatim>\<open>JSON.parse\<close> returns on each sample text, and stands for a parse failure on every
  other text (as on \<open>frame_truncated\<close>, which is not JSON).
\<close>

definition frame_delta_Hel :: string where
  \<open>frame_delta_Hel = ''{"type":"response.text.delta","delta":"Hel"}''\<close>

definition frame_delta_lo :: string where
  \<open>frame_delta_lo = ''{"type":"response.text.delta","delta":"lo"}''\<close>

definition frame_transcript_hello :: string where
  \<open>frame_transcript_hello = ''{"type":"response.audio_transcript.done","transcript":"hello"}''\<close>

definition frame_truncated :: string where
  \<open>frame_truncated = ''{"type":"response.text.delta","del''\<close>

text \<open>
  The function call of the specification's example: id \<^verbatim>\<open>a1\<close>, name \<^verbatim>\<open>get_weather\<close>,
  arguments the JSON text \<open>args_Tokyo\<close> (inside the frame its quotes are escaped with a
  backslash, \<open>CHR 0x5C\<close>).  \<open>frame_call_get_time\<close> names a function that is not
  implemented.
\<close>

definition args_Tokyo :: string where
  \<open>args_Tokyo = ''{"location":"Tokyo"}''\<close>

definition frame_call_a1 :: string where
  \<open>frame_call_a1 =
     ''{"type":"response.function.call","id":"a1","function":{"name":"get_weather","arguments":"{''
     @ [CHR 0x5C] @ ''"location'' @ [CHR 0x5C] @ ''":'' @ [CHR 0x5C] @ ''"Tokyo'' @ [CHR 0x5C]
     @ ''"}"}}''\<close>

definition args_empty :: string where
  \<open>args_empty = ''{}''\<close>

definition frame_call_get_time :: string where
  \<open>frame_call_get_time =
     ''{"type":"response.function.call","id":"b2","function":{"name":"get_time","arguments":"{}"}}''\<close>

definition sample_parse :: "string \<Rightarrow> jsval option" where
  "sample_parse raw =
     (if raw = frame_delta_Hel
        then Some (JObj [(''type'', JStr ''response.text.delta''), (''delta'', JStr ''Hel'')])
      else if raw = frame_delta_lo
        then Some (JObj [(''type'', JStr ''response.text.delta''), (''delta'', JStr ''lo'')])
      else if raw = frame_transcript_hello
        then Some (JObj [(''type'', JStr ''response.audio_transcript.done''),
                         (''transcript'', JStr ''hello'')])
      else if raw = frame_call_a1
        then Some (JObj [(''type'', JStr ''response.function.call''), (''id'', JStr ''a1''),
                         (''function'', JObj [(''name'', JStr ''get_weather''),
                                              (''arguments'', JStr args_Tokyo)])])
      else if raw = args_Tokyo
        then Some (JObj [(''location'', JStr ''Tokyo'')])
      else if raw = frame_call_get_time
        then Some (JObj [(''type'', JStr ''response.function.call''), (''id'', JStr ''b2''),
                         (''function'', JObj [(''name'', JStr ''get_time''),
                                              (''arguments'', JStr args_empty)])])
      else if raw = args_empty
        then Some (JObj [])
      else None)"

text \<open>An environment for one execution: every random draw is 0.\<close>

definition env0 :: exec_env where
  "env0 = \<lparr>rnd = (\<lambda>k. 0), iso_now = ''2025-01-01T00:00:00.000Z''\<rparr>"


definition call_a1 :: function_call where
  "call_a1 = \<lparr>call_id = JStr ''a1'', call_name = JStr ''get_weather'',
               call_arguments = JObj [(''location'', JStr ''Tokyo'')]\<rparr>"


text \<open>
  The call built from \<open>frame_call_get_time\<close>; a definition with a given name, a handler
  that resolves with a given value and one that rejects with an error.
\<close>

definition call_b2 :: function_call where
  "call_b2 = \<lparr>call_id = JStr ''b2'', call_name = JStr ''get_time'', call_arguments = JObj []\<rparr>"

definition definition_named :: "string \<Rightarrow> function_definition" where
  "definition_named n = \<lparr>def_name = n, description = [], parameters = JObj []\<rparr>"

definition handler_resolving :: "jsval \<Rightarrow> function_handler" where
  "handler_resolving v args = Resolves v"

definition handler_rejecting :: "string \<Rightarrow> function_handler" where
  "handler_rejecting m args = Rejects (ErrorObject m)"



text \<open>
  A signaling endpoint that answers every request with 401, and a
  \<^verbatim>\<open>setRemoteDescription\<close> that succeeds.
\<close>

definition response_401 :: http_response where
  "response_401 = \<lparr>response_status = 401, response_text = ''Unauthorized''\<rparr>"

definition fetch_401 :: "http_request \<Rightarrow> rejection + http_response" where
  "fetch_401 request = Inr response_401"

definition never_set :: "string \<Rightarrow> rejection option" where
  "never_set sdp = None"

section \<open>The dispatcher and the conversation\<close>

lemma nullish_read_prop [simp]: "nullish v \<Longrightarrow> read_prop v k = JUndefined"
  by (auto simp: nullish_def)

lemma addDebugLog_fields [simp]:
  "executing (addDebugLog now m s) = executing s"
  "activeFunctions (addDebugLog now m s) = activeFunctions s"
  "completedFunctions (addDebugLog now m s) = completedFunctions s"
  "dataChannel (addDebugLog now m s) = dataChannel s"
  "debugLog (addDebugLog now m s) = debugLog s @ [(now, m)]"
  "messages (addDebugLog now m s) = messages s"
  "transcripts (addDebugLog now m s) = transcripts s"
  "allocated (addDebugLog now m s) = allocated s"
  by (simp_all add: addDebugLog_def)

lemma run_Nil [simp]: "run P [] s = s"
  by (simp add: run_def)

lemma run_Cons [simp]: "run P (e # es) s = run P es (step P s e)"
  by (simp add: run_def)

lemma run_append: "run P (es @ es') s = run P es' (run P es s)"
  by (simp add: run_def)

text \<open>Only a text delta touches the messages, and it does so through \<open>append_delta\<close>.\<close>

lemma onmessage_messages:
  "messages (onmessage P now raw s) =
     (case text_delta_of P raw of None \<Rightarrow> messages s | Some d \<Rightarrow> append_delta now d (messages s))"
  unfolding onmessage_def text_delta_of_def
  by (auto simp: Let_def addDebugLog_def addTranscript_def start_execution_def
      split: option.splits sum.splits bool.splits jsval.splits)

lemma append_delta_continue:
  "role m = assistant \<Longrightarrow> append_delta now d (ms @ [m]) = ms @ [m\<lparr>content := content m @ d\<rparr>]"
  by (simp add: append_delta_def)

lemma append_delta_new:
  "ms = [] \<or> role (last ms) \<noteq> assistant \<Longrightarrow>
   append_delta now d ms = ms @ [\<lparr>role = assistant, content = d, timestamp = now\<rparr>]"
  by (auto simp: append_delta_def)

lemma deltas_extend_last:
  assumes "map (\<lambda>f. text_delta_of P (snd f)) fs = map Some ds"
    and "messages s = ms @ [m]" and "role m = assistant"
  shows "messages (run P (frames_of fs) s) = ms @ [m\<lparr>content := content m @ concat ds\<rparr>]"
  using assms
proof (induction fs arbitrary: s m ds)
  case Nil
  then show ?case by (simp add: frames_of_def)
next
  case (Cons f fs)
  from Cons.prems(1) obtain d ds' where ds: "ds = d # ds'"
    and d: "text_delta_of P (snd f) = Some d"
    and rest: "map (\<lambda>f. text_delta_of P (snd f)) fs = map Some ds'"
    by (cases ds) auto
  let ?s1 = "onmessage P (fst f) (snd f) s"
  have m1: "messages ?s1 = ms @ [m\<lparr>content := content m @ d\<rparr>]"
    using d Cons.prems(2,3) by (simp add: onmessage_messages append_delta_continue)
  have "messages (run P (frames_of fs) ?s1) =
          ms @ [(m\<lparr>content := content m @ d\<rparr>)\<lparr>content := content (m\<lparr>content := content m @ d\<rparr>) @ concat ds'\<rparr>]"
    by (rule Cons.IH [OF rest m1]) (simp add: Cons.prems(3))
  then show ?case by (simp add: frames_of_def ds)
qed

text \<open>
  C1.  Take a non-empty sequence of frames, each a \<^verbatim>\<open>response.text.delta\<close> event whose
  \<^verbatim>\<open>delta\<close> is a string, and a state whose last message is not an assistant message (or
  that has no message).  Dispatching the frames in arrival order leaves the earlier
  messages as they are and adds exactly one message: an assistant message whose content
  is the concatenation of the deltas in arrival order (its timestamp is the arrival time
  of the first frame).
\<close>

theorem text_deltas_concatenate:
  assumes "fs \<noteq> []"
    and "map (\<lambda>f. text_delta_of P (snd f)) fs = map Some ds"
    and "messages s = [] \<or> role (last (messages s)) \<noteq> assistant"
  shows "messages (run P (frames_of fs) s) =
           messages s @ [\<lparr>role = assistant, content = concat ds, timestamp = fst (hd fs)\<rparr>]"
proof -
  from assms(1) obtain f fs' where fs: "fs = f # fs'" by (cases fs) auto
  with assms(2) obtain d ds' where ds: "ds = d # ds'"
    and d: "text_delta_of P (snd f) = Some d"
    and rest: "map (\<lambda>f. text_delta_of P (snd f)) fs' = map Some ds'"
    by (cases ds) auto
  let ?s1 = "onmessage P (fst f) (snd f) s"
  let ?m = "\<lparr>role = assistant, content = d, timestamp = fst f\<rparr>"
  have m1: "messages ?s1 = messages s @ [?m]"
    using d assms(3) by (simp add: onmessage_messages append_delta_new)
  have "messages (run P (frames_of fs') ?s1) = messages s @ [?m\<lparr>content := content ?m @ concat ds'\<rparr>]"
    by (rule deltas_extend_last [OF rest m1]) simp
  then show ?thesis by (simp add: fs ds frames_of_def)
qed

theorem text_deltas_concatenate_witness:
  "messages (run sample_parse (frames_of [(1, frame_delta_Hel), (2, frame_delta_lo)]) initial_state) =
     [\<lparr>role = assistant, content = ''Hello'', timestamp = 1\<rparr>]"
proof -
  have a: "[(1::nat, frame_delta_Hel), (2, frame_delta_lo)] \<noteq> []" by simp
  have b: "map (\<lambda>f. text_delta_of sample_parse (snd f)) [(1::nat, frame_delta_Hel), (2, frame_delta_lo)]
             = map Some [''Hel'', ''lo'']"
    by (simp add: text_delta_of_def sample_parse_def frame_delta_Hel_def frame_delta_lo_def)
  have c: "messages initial_state = [] \<or> role (last (messages initial_state)) \<noteq> assistant"
    by (simp add: initial_state_def)
  show ?thesis
    using text_deltas_concatenate [OF a b c] by (simp add: initial_state_def)
qed

text \<open>
  C6.  A frame whose text is not valid JSON only adds the line of the \<^verbatim>\<open>catch\<close> to the
  debug log: the messages, the transcripts, the function calls (active, in flight and
  completed), the status, the error and the data channel are as before, and the handler
  returns normally.
\<close>

theorem malformed_frame_only_logged:
  assumes "P raw = None"
  shows "onmessage P now raw s = s\<lparr>debugLog := debugLog s @ [(now, ErrorParsingEvent SyntaxError)]\<rparr>"
  using assms by (simp add: onmessage_def addDebugLog_def)

theorem malformed_frame_only_logged_witness:
  "onmessage sample_parse 7 frame_truncated ready_page =
     ready_page\<lparr>debugLog := debugLog ready_page @ [(7, ErrorParsingEvent SyntaxError)]\<rparr>"
proof -
  have "sample_parse frame_truncated = None"
    by (simp add: sample_parse_def frame_truncated_def frame_delta_Hel_def frame_delta_lo_def
        frame_transcript_hello_def frame_call_a1_def frame_call_get_time_def args_Tokyo_def
        args_empty_def)
  then show ?thesis by (rule malformed_frame_only_logged)
qed

text \<open>
  C2 (as amended).  A text delta is appended to the last message exactly when that
  message is an assistant message; otherwise it starts a new assistant message.  A frame
  that is not a text delta (a transcript, a function call, an unknown or malformed
  frame) leaves the messages as they are, so it does not end the continuation.
\<close>

theorem delta_continuation_rule:
  "messages (onmessage P now raw s) =
     (case text_delta_of P raw of
        None \<Rightarrow> messages s
      | Some d \<Rightarrow>
          if messages s \<noteq> [] \<and> role (last (messages s)) = assistant
          then butlast (messages s) @ [(last (messages s))\<lparr>content := content (last (messages s)) @ d\<rparr>]
          else messages s @ [\<lparr>role = assistant, content = d, timestamp = now\<rparr>])"
  by (simp add: onmessage_messages append_delta_def split: option.splits)

text \<open>
  A transcript arrives between two deltas: the second delta is appended to the message
  the first one started, and the conversation has one message.
\<close>

theorem interleaved_transcript_counterexample:
  "messages (run sample_parse
      [Frame 1 frame_delta_Hel, Frame 2 frame_transcript_hello, Frame 3 frame_delta_lo] initial_state) =
     [\<lparr>role = assistant, content = ''Hello'', timestamp = 1\<rparr>]"
  by (simp add: onmessage_messages text_delta_of_def sample_parse_def append_delta_def
      frame_delta_Hel_def frame_delta_lo_def frame_transcript_hello_def initial_state_def)

section \<open>Transcripts\<close>

text \<open>Only a transcript frame touches the transcripts.\<close>

lemma onmessage_transcripts:
  "transcripts (onmessage P now raw s) =
     (case transcript_of P raw of None \<Rightarrow> transcripts s | Some t \<Rightarrow> transcripts s @ [t])"
  unfolding onmessage_def transcript_of_def
  by (auto simp: Let_def addDebugLog_def addTranscript_def start_execution_def
      split: option.splits sum.splits bool.splits jsval.splits)

lemma text_delta_not_transcript:
  "text_delta_of P raw = Some d \<Longrightarrow> transcript_of P raw = None"
  by (auto simp: text_delta_of_def transcript_of_def split: option.splits bool.splits jsval.splits)

lemma deltas_keep_transcripts:
  "\<forall>f \<in> set fs. text_delta_of P (snd f) \<noteq> None \<Longrightarrow>
   transcripts (run P (frames_of fs) s) = transcripts s"
proof (induction fs arbitrary: s)
  case Nil
  then show ?case by (simp add: frames_of_def)
next
  case (Cons f fs)
  then obtain d where "text_delta_of P (snd f) = Some d" by auto
  then have "transcripts (onmessage P (fst f) (snd f) s) = transcripts s"
    by (simp add: onmessage_transcripts text_delta_not_transcript)
  moreover have "transcripts (run P (frames_of fs) (onmessage P (fst f) (snd f) s)) =
      transcripts (onmessage P (fst f) (snd f) s)"
    using Cons.prems by (intro Cons.IH) simp
  ultimately show ?case by (simp add: frames_of_def)
qed

lemma frames_messages_cong:
  "messages s = messages s' \<Longrightarrow>
   messages (run P (frames_of fs) s) = messages (run P (frames_of fs) s')"
proof (induction fs arbitrary: s s')
  case Nil
  then show ?case by (simp add: frames_of_def)
next
  case (Cons f fs)
  have "messages (onmessage P (fst f) (snd f) s) = messages (onmessage P (fst f) (snd f) s')"
    by (simp add: onmessage_messages Cons.prems split: option.splits)
  then have "messages (run P (frames_of fs) (onmessage P (fst f) (snd f) s)) =
      messages (run P (frames_of fs) (onmessage P (fst f) (snd f) s'))"
    by (rule Cons.IH)
  then show ?case by (simp add: frames_of_def)
qed

text \<open>
  C8.  A \<^verbatim>\<open>response.audio_transcript.done\<close> frame whose \<^verbatim>\<open>transcript\<close> is the string \<open>t\<close>
  appends exactly the entry \<open>t\<close> to the transcripts and one line to the debug log, and
  changes nothing else of the state.  Text deltas dispatched before and after it do not
  change this: the transcripts gain exactly \<open>t\<close>, and the messages are those the deltas
  alone produce.
\<close>

theorem transcript_done_appends:
  assumes "P raw = Some ev"
    and "read_prop ev ''type'' = JStr ''response.audio_transcript.done''"
    and "read_prop ev ''transcript'' = JStr t"
    and "\<forall>f \<in> set before. text_delta_of P (snd f) \<noteq> None"
    and "\<forall>f \<in> set after. text_delta_of P (snd f) \<noteq> None"
  shows "onmessage P now raw s =
           s\<lparr>debugLog := debugLog s @ [(now, ReceivedEvent ev)], transcripts := transcripts s @ [t]\<rparr>
       \<and> transcripts (run P (frames_of before @ Frame now raw # frames_of after) s) = transcripts s @ [t]
       \<and> messages (run P (frames_of before @ Frame now raw # frames_of after) s) =
           messages (run P (frames_of before @ frames_of after) s)"
proof -
  have nn: "\<not> nullish ev" using assms(2) by (auto simp: nullish_def)
  have one: "onmessage P now raw s' =
      s'\<lparr>debugLog := debugLog s' @ [(now, ReceivedEvent ev)], transcripts := transcripts s' @ [t]\<rparr>" for s'
    using nn assms(1-3)
    by (simp add: onmessage_def addDebugLog_def addTranscript_def Let_def split: jsval.splits)
  let ?b = "run P (frames_of before) s"
  have tr: "transcripts (run P (frames_of before @ Frame now raw # frames_of after) s) = transcripts s @ [t]"
    by (simp add: run_append deltas_keep_transcripts [OF assms(5)] deltas_keep_transcripts [OF assms(4)] one)
  have "messages (onmessage P now raw ?b) = messages ?b" by (simp add: one)
  then have "messages (run P (frames_of after) (onmessage P now raw ?b)) =
      messages (run P (frames_of after) ?b)"
    by (rule frames_messages_cong)
  then have ms: "messages (run P (frames_of before @ Frame now raw # frames_of after) s) =
           messages (run P (frames_of before @ frames_of after) s)"
    by (simp add: run_append)
  show ?thesis using one [of s] tr ms by simp
qed

theorem transcript_done_appends_witness:
  "transcripts (run sample_parse
      (frames_of [(10, frame_delta_Hel)] @ Frame 20 frame_transcript_hello # frames_of [(30, frame_delta_lo)])
      initial_state) = [''hello'']
   \<and> onmessage sample_parse 20 frame_transcript_hello initial_state =
       initial_state\<lparr>debugLog := [(20, ReceivedEvent (JObj [(''type'', JStr ''response.audio_transcript.done''),
                         (''transcript'', JStr ''hello'')]))], transcripts := [''hello'']\<rparr>"
proof -
  have p: "sample_parse frame_transcript_hello =
      Some (JObj [(''type'', JStr ''response.audio_transcript.done''), (''transcript'', JStr ''hello'')])"
    by (simp add: sample_parse_def frame_delta_Hel_def frame_delta_lo_def frame_transcript_hello_def)
  have ty: "read_prop (JObj [(''type'', JStr ''response.audio_transcript.done''), (''transcript'', JStr ''hello'')])
      ''type'' = JStr ''response.audio_transcript.done''"
    by simp
  have tr: "read_prop (JObj [(''type'', JStr ''response.audio_transcript.done''), (''transcript'', JStr ''hello'')])
      ''transcript'' = JStr ''hello''"
    by simp
  have b: "\<forall>f \<in> set [(10::nat, frame_delta_Hel)]. text_delta_of sample_parse (snd f) \<noteq> None"
    by (simp add: text_delta_of_def sample_parse_def frame_delta_Hel_def)
  have a: "\<forall>f \<in> set [(30::nat, frame_delta_lo)]. text_delta_of sample_parse (snd f) \<noteq> None"
    by (simp add: text_delta_of_def sample_parse_def frame_delta_Hel_def frame_delta_lo_def)
  show ?thesis
    using transcript_done_appends [OF p ty tr b a, of 20 initial_state]
    by (simp add: initial_state_def)
qed

section \<open>Signaling failure\<close>

lemma worker_signaling_failure:
  assumes "fetch (signaling_request offer token) = Inr resp" and "\<not> ok resp"
  shows "requests (worker_GET_REMOTE_DESCRIPTION fetch t0 t1 (Some offer) token w) =
           requests w @ [signaling_request offer token]"
    and "posted (worker_GET_REMOTE_DESCRIPTION fetch t0 t1 (Some offer) token w) =
           posted w @
           [DEBUG_LOG t0 ''Getting remote description...'',
            DEBUG_LOG t0 (''Making request to: '' @ baseUrl @ ''?model='' @ model),
            DEBUG_LOG t0 (''Using offer SDP: '' @ take 100 offer @ ''...''),
            DEBUG_LOG t1 (''Response error ('' @ show_nat (response_status resp) @ ''): ''
                            @ response_text resp),
            ERROR (Some (''Failed to get remote description: '' @ show_nat (response_status resp)
                           @ '' - '' @ response_text resp))]"
  using assms
  by (simp_all add: worker_GET_REMOTE_DESCRIPTION_def getRemoteDescription_def Let_def
      worker_log_def post_def)

lemma deliver_Nil [simp]: "deliver srd now [] s = s"
  by (simp add: deliver_def)

lemma deliver_Cons [simp]:
  "deliver srd now (m # ms) s = deliver srd now ms (workerRef_onmessage srd now m s)"
  by (simp add: deliver_def)

text \<open>
  C7.  When the signaling request is answered with a status outside 200-299, the worker
  has made that one request and no other, and has posted its log lines and then one
  \<^verbatim>\<open>ERROR\<close> whose text carries the status code and the response body; it posts no remote
  description.  Once the page has handled what the worker posted, its status is
  \<^verbatim>\<open>Error\<close>, its error is that text, and its messages are as before (empty if they were
  empty).
\<close>

theorem signaling_failure_is_fatal:
  assumes "fetch (signaling_request offer token) = Inr resp" and "\<not> ok resp"
  shows "requests (worker_GET_REMOTE_DESCRIPTION fetch t0 t1 (Some offer) token w) =
           requests w @ [signaling_request offer token]
       \<and> posted (worker_GET_REMOTE_DESCRIPTION fetch t0 t1 (Some offer) token w) =
           posted w @
           [DEBUG_LOG t0 ''Getting remote description...'',
            DEBUG_LOG t0 (''Making request to: '' @ baseUrl @ ''?model='' @ model),
            DEBUG_LOG t0 (''Using offer SDP: '' @ take 100 offer @ ''...''),
            DEBUG_LOG t1 (''Response error ('' @ show_nat (response_status resp) @ ''): ''
                            @ response_text resp),
            ERROR (Some (''Failed to get remote description: '' @ show_nat (response_status resp)
                           @ '' - '' @ response_text resp))]
       \<and> status (deliver setRemoteDescription now
                    (drop (length (posted w))
                       (posted (worker_GET_REMOTE_DESCRIPTION fetch t0 t1 (Some offer) token w))) s) =
           ''Error''
       \<and> error (deliver setRemoteDescription now
                    (drop (length (posted w))
                       (posted (worker_GET_REMOTE_DESCRIPTION fetch t0 t1 (Some offer) token w))) s) =
           Some (''Failed to get remote description: '' @ show_nat (response_status resp)
                   @ '' - '' @ response_text resp)
       \<and> messages (deliver setRemoteDescription now
                    (drop (length (posted w))
                       (posted (worker_GET_REMOTE_DESCRIPTION fetch t0 t1 (Some offer) token w))) s) =
           messages s"
  by (simp add: worker_signaling_failure [of fetch offer token resp, OF assms] addDebugLog_def)

lemma show_nat_401: "show_nat 401 = ''401''"
  by code_simp

theorem signaling_failure_is_fatal_witness:
  "\<not> ok response_401
   \<and> requests (worker_GET_REMOTE_DESCRIPTION fetch_401 10 20 (Some ''v=0'') ''ek_1''
        \<lparr>posted = [], requests = []\<rparr>) = [signaling_request ''v=0'' ''ek_1'']
   \<and> last (posted (worker_GET_REMOTE_DESCRIPTION fetch_401 10 20 (Some ''v=0'') ''ek_1''
        \<lparr>posted = [], requests = []\<rparr>)) =
       ERROR (Some ''Failed to get remote description: 401 - Unauthorized'')
   \<and> status (deliver never_set 30
        (posted (worker_GET_REMOTE_DESCRIPTION fetch_401 10 20 (Some ''v=0'') ''ek_1''
           \<lparr>posted = [], requests = []\<rparr>)) initial_state) = ''Error''
   \<and> error (deliver never_set 30
        (posted (worker_GET_REMOTE_DESCRIPTION fetch_401 10 20 (Some ''v=0'') ''ek_1''
           \<lparr>posted = [], requests = []\<rparr>)) initial_state) =
       Some ''Failed to get remote description: 401 - Unauthorized''
   \<and> messages (deliver never_set 30
        (posted (worker_GET_REMOTE_DESCRIPTION fetch_401 10 20 (Some ''v=0'') ''ek_1''
           \<lparr>posted = [], requests = []\<rparr>)) initial_state) = []"
proof -
  have f: "fetch_401 (signaling_request ''v=0'' ''ek_1'') = Inr response_401"
    by (simp add: fetch_401_def)
  have n: "\<not> ok response_401" by (simp add: ok_def response_401_def)
  have r: "response_status response_401 = 401" "response_text response_401 = ''Unauthorized''"
    by (simp_all add: response_401_def)
  show ?thesis
    using signaling_failure_is_fatal [of fetch_401 "''v=0''" "''ek_1''" response_401 10 20
        "\<lparr>posted = [], requests = []\<rparr>" never_set 30 initial_state, OF f n]
    by (simp add: n r show_nat_401 initial_state_def)
qed

section \<open>Function calls\<close>

lemma function_call_ofD:
  assumes "function_call_of P raw = Some fc"
  obtains ev where "P raw = Some ev" "\<not> nullish ev"
    "read_prop ev ''type'' = JStr ''response.function.call''" "build_functionCall P ev = Inr fc"
proof -
  from assms obtain ev where ev: "P raw = Some ev"
    by (auto simp: function_call_of_def split: option.splits)
  with assms have ty: "read_prop ev ''type'' = JStr ''response.function.call''"
    and b: "build_functionCall P ev = Inr fc"
    by (auto simp: function_call_of_def split: if_splits sum.splits)
  from ty have "\<not> nullish ev" by (auto simp: nullish_def)
  with ev ty b show ?thesis by (auto intro: that)
qed

lemma onmessage_function_call:
  assumes "function_call_of P raw = Some fc" and "P raw = Some ev"
  shows "onmessage P now raw s =
           start_execution now fc
             (addDebugLog now (FunctionCallReceived ev) (addDebugLog now (ReceivedEvent ev) s))"
proof -
  from assms(1) obtain ev' where "P raw = Some ev'" "\<not> nullish ev'"
    "read_prop ev' ''type'' = JStr ''response.function.call''" "build_functionCall P ev' = Inr fc"
    by (rule function_call_ofD)
  with assms(2) show ?thesis by (simp add: onmessage_def Let_def)
qed



text \<open>A call whose name converts to a string is put in flight.\<close>

lemma start_execution_fields:
  assumes "to_string (call_name fc) = Inr name"
  shows "executing (start_execution now fc s) =
           executing s @ [(key_of (allocated s) (call_id fc), fc)]"
    and "activeFunctions (start_execution now fc s) =
           map_set (key_of (allocated s) (call_id fc)) (fc, now) (activeFunctions s)"
    and "completedFunctions (start_execution now fc s) = completedFunctions s"
    and "dataChannel (start_execution now fc s) = dataChannel s"
    and "debugLog (start_execution now fc s) = debugLog s @ [(now, ExecutingFunction name)]"
    and "allocated (start_execution now fc s) = Suc (allocated s)"
  using assms by (simp_all add: start_execution_def addDebugLog_def Let_def)

text \<open>
  A call whose name has no conversion to a string is never put in flight: its entry in
  \<open>activeFunctions\<close> stays, the rejection is logged, and nothing will be sent for it.
\<close>

lemma start_execution_rejected:
  assumes "to_string (call_name fc) = Inl e"
  shows "executing (start_execution now fc s) = executing s"
    and "dataChannel (start_execution now fc s) = dataChannel s"
    and "debugLog (start_execution now fc s) = debugLog s @ [(now, ErrorExecutingFunction e)]"
    and "activeFunctions (start_execution now fc s) =
           map_set (key_of (allocated s) (call_id fc)) (fc, now) (activeFunctions s)"
  using assms by (simp_all add: start_execution_def addDebugLog_def Let_def)

lemma execution_settles_result:
  assumes "executeFunction env fc = Inr r"
  shows "sent_frames (execution_settles env now k fc s) =
           (if channel_open s then sent_frames s @ [functionResponseEvent r] else sent_frames s)"
    and "completedFunctions (execution_settles env now k fc s) = completedFunctions s @ [r]"
    and "activeFunctions (execution_settles env now k fc s) = map_delete k (activeFunctions s)"
    and "executing (execution_settles env now k fc s) = executing s"
    and "channel_open (execution_settles env now k fc s) = channel_open s"
  using assms
  by (auto simp: execution_settles_def Let_def channel_open_def send_def sent_frames_def addDebugLog_def
      split: option.splits)

lemma executing_update_channel [simp]:
  "channel_open (s\<lparr>executing := x\<rparr>) = channel_open s"
  "sent_frames (s\<lparr>executing := x\<rparr>) = sent_frames s"
  by (simp_all add: channel_open_def sent_frames_def)

lemma timer_fires_result:
  assumes "i < length (executing s)" and "executeFunction env (snd (executing s ! i)) = Inr r"
  shows "sent_frames (timer_fires env now i s) =
           (if channel_open s then sent_frames s @ [functionResponseEvent r] else sent_frames s)"
    and "completedFunctions (timer_fires env now i s) = completedFunctions s @ [r]"
    and "activeFunctions (timer_fires env now i s) =
           map_delete (fst (executing s ! i)) (activeFunctions s)"
    and "executing (timer_fires env now i s) = take i (executing s) @ drop (Suc i) (executing s)"
    and "channel_open (timer_fires env now i s) = channel_open s"
  using assms
  by (simp_all add: timer_fires_def execution_settles_result)


text \<open>
  An execution of \<^verbatim>\<open>get_weather\<close> whose arguments are \<^verbatim>\<open>null\<close> rejects: destructuring
  throws, only the \<^verbatim>\<open>catch\<close> runs, and nothing is recorded or sent.
\<close>

lemma get_weather_null_arguments_rejects:
  "executeFunction env \<lparr>call_id = i, call_name = JStr ''get_weather'', call_arguments = JNull\<rparr> =
     Inl TypeError"
  "execution_settles env now k \<lparr>call_id = i, call_name = JStr ''get_weather'', call_arguments = JNull\<rparr> s =
     addDebugLog now (ErrorExecutingFunction TypeError) s"
  by (simp_all add: executeFunction_def execution_settles_def and_then_def get_prop_def nullish_def)

lemma map_set_twice: "map_set k v' (map_set k v m) = map_set k v' m"
  by (induction m) auto

lemma onmessage_function_call_fields:
  assumes "function_call_of P raw = Some fc" and "P raw = Some ev"
    and "call_name fc = JStr name"
  shows "executing (onmessage P now raw s) =
           executing s @ [(key_of (allocated s) (call_id fc), fc)]"
    and "activeFunctions (onmessage P now raw s) =
           map_set (key_of (allocated s) (call_id fc)) (fc, now) (activeFunctions s)"
    and "completedFunctions (onmessage P now raw s) = completedFunctions s"
    and "dataChannel (onmessage P now raw s) = dataChannel s"
    and "debugLog (onmessage P now raw s) =
           debugLog s @ [(now, ReceivedEvent ev), (now, FunctionCallReceived ev),
                         (now, ExecutingFunction name)]"
    and "allocated (onmessage P now raw s) = Suc (allocated s)"
proof -
  have n: "to_string (call_name fc) = Inr name" by (simp add: assms(3))
  show "executing (onmessage P now raw s) =
           executing s @ [(key_of (allocated s) (call_id fc), fc)]"
    and "activeFunctions (onmessage P now raw s) =
           map_set (key_of (allocated s) (call_id fc)) (fc, now) (activeFunctions s)"
    and "completedFunctions (onmessage P now raw s) = completedFunctions s"
    and "dataChannel (onmessage P now raw s) = dataChannel s"
    and "debugLog (onmessage P now raw s) =
           debugLog s @ [(now, ReceivedEvent ev), (now, FunctionCallReceived ev),
                         (now, ExecutingFunction name)]"
    and "allocated (onmessage P now raw s) = Suc (allocated s)"
    by (simp_all add: onmessage_function_call [OF assms(1,2)] start_execution_fields [OF n])
qed

lemma onmessage_function_call_channel:
  assumes "function_call_of P raw = Some fc"
  shows "sent_frames (onmessage P now raw s) = sent_frames s"
    and "channel_open (onmessage P now raw s) = channel_open s"
proof -
  from assms obtain ev where ev: "P raw = Some ev"
    by (auto simp: function_call_of_def split: option.splits)
  have "dataChannel (onmessage P now raw s) = dataChannel s"
    by (cases "to_string (call_name fc)")
      (simp_all add: onmessage_function_call [OF assms ev] start_execution_rejected
        start_execution_fields)
  then show "sent_frames (onmessage P now raw s) = sent_frames s"
    and "channel_open (onmessage P now raw s) = channel_open s"
    by (simp_all add: sent_frames_def channel_open_def)
qed

subsection \<open>Two calls with one id\<close>







lemma ready_page_open: "channel_open ready_page"
  by (simp add: channel_open_def ready_page_def initial_state_def)

lemma ready_page_fields:
  "executing ready_page = []" "activeFunctions ready_page = []" "debugLog ready_page = []"
  "completedFunctions ready_page = []" "allocated ready_page = 0" "sent_frames ready_page = []"
  by (simp_all add: ready_page_def initial_state_def sent_frames_def)



subsection \<open>One response for a call\<close>





section \<open>Calls of unknown functions\<close>

lemma unimplemented_result:
  "call_name fc = JStr n \<Longrightarrow> n \<noteq> ''get_weather'' \<Longrightarrow>
   executeFunction env fc =
     Inr \<lparr>result_id = call_id fc, result_name = call_name fc, result = JNull,
          result_error = Some (unimplemented_prefix @ n)\<rparr>"
  by (simp add: executeFunction_def and_then_def)

text \<open>
  C5.  A call that names a function without a handler (the name a string) gets a result
  whose error is set and whose result is \<^verbatim>\<open>null\<close>, and nothing is thrown.  On the page
  (any name but \<^verbatim>\<open>get_weather\<close>) \<^verbatim>\<open>executeFunction\<close> resolves with that result, and when
  it settles with the channel open the response sent carries the id, the name and an
  error object as payload.  In the registry (no entry under the name) \<^verbatim>\<open>execute\<close>
  resolves with such a result, and the payload built from it is an error object.
\<close>

theorem unknown_function_error_result:
  "(call_name fc = JStr n \<and> n \<noteq> ''get_weather'' \<longrightarrow>
      executeFunction env fc =
        Inr \<lparr>result_id = call_id fc, result_name = JStr n, result = JNull,
             result_error = Some (unimplemented_prefix @ n)\<rparr>
      \<and> (i < length (executing s) \<and> snd (executing s ! i) = fc \<and> channel_open s \<longrightarrow>
           sent_frames (timer_fires env now i s) =
             sent_frames s @
             [JObj [(''type'', JStr ''response.function.response''),
                    (''function'',
                       JObj [(''name'', JStr n),
                             (''response'', JObj [(''error'', JStr (unimplemented_prefix @ n))])]),
                    (''id'', call_id fc)]]))
   \<and> (call_name fc = JStr n \<and> registry_get reg (JStr n) = None \<longrightarrow>
        execute reg fc =
          Fulfilled \<lparr>result_id = call_id fc, result_name = JStr n, result = JNull,
                     result_error = Some (''Function '' @ [CHR 0x27] @ n @ [CHR 0x27] @ '' not found'')\<rparr>
        \<and> response_payload
             \<lparr>result_id = call_id fc, result_name = JStr n, result = JNull,
              result_error = Some (''Function '' @ [CHR 0x27] @ n @ [CHR 0x27] @ '' not found'')\<rparr> =
            JObj [(''error'', JStr (''Function '' @ [CHR 0x27] @ n @ [CHR 0x27] @ '' not found''))])"
proof (intro conjI impI)
  assume a: "call_name fc = JStr n \<and> n \<noteq> ''get_weather''"
  then show r: "executeFunction env fc =
        Inr \<lparr>result_id = call_id fc, result_name = JStr n, result = JNull,
             result_error = Some (unimplemented_prefix @ n)\<rparr>"
    using unimplemented_result [of fc n env] by simp
  assume b: "i < length (executing s) \<and> snd (executing s ! i) = fc \<and> channel_open s"
  then have i: "i < length (executing s)" and o: "channel_open s" by simp_all
  from b r have r': "executeFunction env (snd (executing s ! i)) =
        Inr \<lparr>result_id = call_id fc, result_name = JStr n, result = JNull,
             result_error = Some (unimplemented_prefix @ n)\<rparr>"
    by simp
  show "sent_frames (timer_fires env now i s) =
             sent_frames s @
             [JObj [(''type'', JStr ''response.function.response''),
                    (''function'',
                       JObj [(''name'', JStr n),
                             (''response'', JObj [(''error'', JStr (unimplemented_prefix @ n))])]),
                    (''id'', call_id fc)]]"
    by (simp add: timer_fires_result(1) [OF i r'] o functionResponseEvent_def response_payload_def
        unimplemented_prefix_def)
next
  assume "call_name fc = JStr n \<and> registry_get reg (JStr n) = None"
  then show "execute reg fc =
          Fulfilled \<lparr>result_id = call_id fc, result_name = JStr n, result = JNull,
                     result_error = Some (''Function '' @ [CHR 0x27] @ n @ [CHR 0x27] @ '' not found'')\<rparr>"
    by (simp add: execute_def)
next
  show "response_payload
             \<lparr>result_id = call_id fc, result_name = JStr n, result = JNull,
              result_error = Some (''Function '' @ [CHR 0x27] @ n @ [CHR 0x27] @ '' not found'')\<rparr> =
            JObj [(''error'', JStr (''Function '' @ [CHR 0x27] @ n @ [CHR 0x27] @ '' not found''))]"
    by (simp add: response_payload_def)
qed

lemma sample_b2:
  "sample_parse frame_call_get_time =
     Some (JObj [(''type'', JStr ''response.function.call''), (''id'', JStr ''b2''),
                 (''function'', JObj [(''name'', JStr ''get_time''), (''arguments'', JStr args_empty)])])"
  "function_call_of sample_parse frame_call_get_time = Some call_b2"
  by (simp_all add: function_call_of_def sample_parse_def build_functionCall_def and_then_def
      get_prop_def nullish_def JSON_parse_value_def call_b2_def
      frame_delta_Hel_def frame_delta_lo_def frame_transcript_hello_def frame_call_a1_def
      frame_call_get_time_def args_Tokyo_def args_empty_def)

theorem unknown_function_error_result_witness:
  "function_call_of sample_parse frame_call_get_time = Some call_b2
   \<and> call_name call_b2 = JStr ''get_time''
   \<and> executeFunction env0 call_b2 =
        Inr \<lparr>result_id = JStr ''b2'', result_name = JStr ''get_time'', result = JNull,
             result_error = Some (unimplemented_prefix @ ''get_time'')\<rparr>
   \<and> sent_frames (timer_fires env0 1010 0 (onmessage sample_parse 10 frame_call_get_time ready_page)) =
        [JObj [(''type'', JStr ''response.function.response''),
               (''function'',
                  JObj [(''name'', JStr ''get_time''),
                        (''response'', JObj [(''error'', JStr (unimplemented_prefix @ ''get_time''))])]),
               (''id'', JStr ''b2'')]]
   \<and> execute (register (definition_named ''get_weather'') (handler_resolving JNull) []) call_b2 =
        Fulfilled \<lparr>result_id = JStr ''b2'', result_name = JStr ''get_time'', result = JNull,
              result_error = Some (''Function '' @ [CHR 0x27] @ ''get_time'' @ [CHR 0x27] @ '' not found'')\<rparr>"
proof -
  let ?s1 = "onmessage sample_parse 10 frame_call_get_time ready_page"
  have f: "call_id call_b2 = JStr ''b2''" "call_name call_b2 = JStr ''get_time''"
    by (simp_all add: call_b2_def)
  have ex1: "executing ?s1 = [(ValueKey (JStr ''b2''), call_b2)]"
    by (simp add: onmessage_function_call_fields(1) [OF sample_b2(2,1) f(2)] ready_page_fields f
        key_of_def)
  have op: "channel_open ?s1"
    by (simp add: onmessage_function_call_channel(2) [OF sample_b2(2)] ready_page_open)
  have s1: "sent_frames ?s1 = []"
    by (simp add: onmessage_function_call_channel(1) [OF sample_b2(2)] ready_page_fields)
  have g: "registry_get (register (definition_named ''get_weather'') (handler_resolving JNull) [])
             (JStr ''get_time'') = None"
    by (simp add: registry_get_def register_def definition_named_def)
  show ?thesis
    using unknown_function_error_result [of call_b2 "''get_time''" env0 0 ?s1 1010
        "register (definition_named ''get_weather'') (handler_resolving JNull) []"]
    by (simp add: sample_b2 f g ex1 op s1)
qed

section \<open>The registry\<close>


text \<open>Where a conversion to a string throws, the promise of \<^verbatim>\<open>execute\<close> is rejected.\<close>

lemma execute_rejected:
  "registry_get reg (call_name c) = None \<Longrightarrow> to_string (call_name c) = Inl e \<Longrightarrow>
   execute reg c = Rejected e"
  "registry_get reg (call_name c) = Some (d, h) \<Longrightarrow> h (call_arguments c) = Rejects (NonError x) \<Longrightarrow>
   to_string x = Inl e \<Longrightarrow> execute reg c = Rejected e"
  by (simp_all add: execute_def)




lemma map_set_keys_present:
  "k \<in> fst ` set m \<Longrightarrow> map fst (map_set k v m) = map fst m"
  by (induction m) force+

lemma map_set_keys_absent:
  "k \<notin> fst ` set m \<Longrightarrow> map fst (map_set k v m) = map fst m @ [k]"
  by (induction m) auto

lemma map_set_distinct: "distinct (map fst m) \<Longrightarrow> distinct (map fst (map_set k v m))"
  by (cases "k \<in> fst ` set m") (simp_all add: map_set_keys_present map_set_keys_absent)

lemma map_of_map_set: "map_of (map_set k v m) k = Some v"
  by (induction m) auto

lemma filter_absent_key: "k \<notin> set (map fst m) \<Longrightarrow> filter (\<lambda>e. fst e = k) m = []"
  by (induction m) auto

lemma filter_map_set:
  "distinct (map fst m) \<Longrightarrow> filter (\<lambda>e. fst e = k) (map_set k v m) = [(k, v)]"
  by (induction m) (auto simp: filter_absent_key)

lemma set_map_set: "set (map_set k v m) \<subseteq> insert (k, v) (set m)"
  by (induction m) (auto split: if_splits)

text \<open>Registrations keep the keys distinct and equal to the names of the definitions.\<close>

text \<open>Registrations keep the keys distinct and equal to the names of the definitions.\<close>

lemma keyed_register:
  assumes "keyed_by_name reg"
  shows "keyed_by_name (register d h reg)"
proof -
  have "distinct (map fst (map_set (def_name d) (d, h) reg))"
    using assms by (simp add: keyed_by_name_def map_set_distinct)
  moreover have "\<forall>f \<in> set (map_set (def_name d) (d, h) reg). def_name (fst (snd f)) = fst f"
    using assms set_map_set [of "def_name d" "(d, h)" reg]
    by (auto simp: keyed_by_name_def list_all_iff)
  ultimately show ?thesis by (simp add: keyed_by_name_def register_def list_all_iff)
qed

lemma keyed_registry_of_aux:
  "keyed_by_name reg \<Longrightarrow>
   keyed_by_name (foldl (\<lambda>functions r. register (fst r) (snd r) functions) reg rs)"
  by (induction rs arbitrary: reg) (auto simp: keyed_register)

lemma keyed_registry_of: "keyed_by_name (registry_of rs)"
  unfolding registry_of_def by (rule keyed_registry_of_aux) (simp add: keyed_by_name_def)

lemma keyed_names_distinct:
  "keyed_by_name reg \<Longrightarrow> map def_name (getAllDefinitions reg) = map fst reg"
  by (auto simp: keyed_by_name_def getAllDefinitions_def list_all_iff)

lemma keyed_definitions_named:
  assumes "keyed_by_name reg"
  shows "filter (\<lambda>d. def_name d = k) (getAllDefinitions reg) =
           map (\<lambda>f. fst (snd f)) (filter (\<lambda>f. fst f = k) reg)"
proof -
  have "filter (\<lambda>f. def_name (fst (snd f)) = k) reg = filter (\<lambda>f. fst f = k) reg"
    using assms by (intro filter_cong) (auto simp: keyed_by_name_def list_all_iff)
  then show ?thesis by (simp add: getAllDefinitions_def filter_map comp_def)
qed

text \<open>
  C10.  Registering under a name that is already registered replaces the earlier entry:
  the two registrations leave the registry that the second alone leaves.  In a registry
  built by registrations, \<^verbatim>\<open>getAllDefinitions\<close> then has exactly one definition of that
  name, the newer one; \<^verbatim>\<open>execute\<close> on a call of that name ends as the newer handler's
  promise does (its value as the result, its rejection as the error); and no two
  definitions have the same name.
\<close>

theorem register_last_write_wins:
  assumes "def_name d1 = def_name d2"
  shows "register d2 h2 (register d1 h1 reg) = register d2 h2 reg
       \<and> filter (\<lambda>d. def_name d = def_name d2)
           (getAllDefinitions (register d2 h2 (register d1 h1 (registry_of rs)))) = [d2]
       \<and> registry_get (register d2 h2 (register d1 h1 (registry_of rs))) (JStr (def_name d2)) =
           Some (d2, h2)
       \<and> execute (register d2 h2 (register d1 h1 (registry_of rs)))
           \<lparr>call_id = i, call_name = JStr (def_name d2), call_arguments = a\<rparr> =
         (case h2 a of
            Resolves v \<Rightarrow>
              Fulfilled \<lparr>result_id = i, result_name = JStr (def_name d2), result = v,
                         result_error = None\<rparr>
          | Rejects (ErrorObject m) \<Rightarrow>
              Fulfilled \<lparr>result_id = i, result_name = JStr (def_name d2), result = JNull,
                         result_error = Some m\<rparr>
          | Rejects (NonError x) \<Rightarrow>
              (case to_string x of
                 Inl e \<Rightarrow> Rejected e
               | Inr t \<Rightarrow>
                   Fulfilled \<lparr>result_id = i, result_name = JStr (def_name d2), result = JNull,
                              result_error = Some t\<rparr>)
          | NeverSettles \<Rightarrow> Pending)
       \<and> distinct (map def_name (getAllDefinitions (register d2 h2 (register d1 h1 (registry_of rs)))))"
proof -
  have eq: "register d2 h2 (register d1 h1 fs) = register d2 h2 fs" for fs
    using assms by (simp add: register_def map_set_twice)
  have k: "keyed_by_name (registry_of rs)" by (rule keyed_registry_of)
  then have k2: "keyed_by_name (register d2 h2 (registry_of rs))" by (rule keyed_register)
  have d: "distinct (map fst (registry_of rs))" using k by (simp add: keyed_by_name_def)
  have "filter (\<lambda>f. fst f = def_name d2) (register d2 h2 (registry_of rs)) = [(def_name d2, d2, h2)]"
    using d by (simp add: register_def filter_map_set)
  then have one: "filter (\<lambda>d. def_name d = def_name d2) (getAllDefinitions (register d2 h2 (registry_of rs))) = [d2]"
    by (simp add: keyed_definitions_named [OF k2])
  have get: "registry_get (register d2 h2 (registry_of rs)) (JStr (def_name d2)) = Some (d2, h2)"
    by (simp add: registry_get_def register_def map_of_map_set)
  have ex: "execute (register d2 h2 (registry_of rs))
           \<lparr>call_id = i, call_name = JStr (def_name d2), call_arguments = a\<rparr> =
         (case h2 a of
            Resolves v \<Rightarrow>
              Fulfilled \<lparr>result_id = i, result_name = JStr (def_name d2), result = v,
                         result_error = None\<rparr>
          | Rejects (ErrorObject m) \<Rightarrow>
              Fulfilled \<lparr>result_id = i, result_name = JStr (def_name d2), result = JNull,
                         result_error = Some m\<rparr>
          | Rejects (NonError x) \<Rightarrow>
              (case to_string x of
                 Inl e \<Rightarrow> Rejected e
               | Inr t \<Rightarrow>
                   Fulfilled \<lparr>result_id = i, result_name = JStr (def_name d2), result = JNull,
                              result_error = Some t\<rparr>)
          | NeverSettles \<Rightarrow> Pending)"
    using get by (simp add: execute_def split: handler_outcome.splits rejection.splits sum.splits)
  have dist: "distinct (map def_name (getAllDefinitions (register d2 h2 (registry_of rs))))"
    using k2 by (simp add: keyed_names_distinct keyed_by_name_def)
  show ?thesis using one get ex dist by (simp add: eq)
qed

theorem register_last_write_wins_witness:
  "def_name ((definition_named ''get_weather'')\<lparr>description := ''first''\<rparr>) =
     def_name (definition_named ''get_weather'')
   \<and> getAllDefinitions
     (register (definition_named ''get_weather'') (handler_rejecting ''no data'')
       (register ((definition_named ''get_weather'')\<lparr>description := ''first''\<rparr>)
         (handler_resolving (JNum ''21''))
         (registry_of [(definition_named ''get_time'', handler_resolving JNull)]))) =
     [definition_named ''get_time'', definition_named ''get_weather'']
   \<and> execute
       (register (definition_named ''get_weather'') (handler_rejecting ''no data'')
         (register ((definition_named ''get_weather'')\<lparr>description := ''first''\<rparr>)
           (handler_resolving (JNum ''21''))
           (registry_of [(definition_named ''get_time'', handler_resolving JNull)]))) call_a1 =
     Fulfilled \<lparr>result_id = JStr ''a1'', result_name = JStr ''get_weather'', result = JNull,
           result_error = Some ''no data''\<rparr>"
proof -
  have n: "def_name ((definition_named ''get_weather'')\<lparr>description := ''first''\<rparr>) =
      def_name (definition_named ''get_weather'')"
    by (simp add: definition_named_def)
  note w = register_last_write_wins [OF n, of "handler_rejecting ''no data''" "handler_resolving (JNum ''21'')"
      "registry_of [(definition_named ''get_time'', handler_resolving JNull)]"
      "[(definition_named ''get_time'', handler_resolving JNull)]" "JStr ''a1''"
      "JObj [(''location'', JStr ''Tokyo'')]"]
  show ?thesis
    using w
    by (simp add: registry_of_def register_def definition_named_def getAllDefinitions_def
        execute_def registry_get_def call_a1_def handler_rejecting_def)
qed

end
